theory Spec2Isabelle
  imports Main "HOL-Library.Sublist"
begin

section \<open>JavaScript values and the conversions the models rely on\<close>

text \<open>
  The values that reach the model functions: \<open>undefined\<close>, \<open>null\<close>, booleans, numbers
  and strings. \<open>Num n\<close> is the JavaScript number whose value is the integer \<open>n\<close>
  (salaries, employee counts, ids); beyond \<open>2^53\<close> only the integers that are numbers
  stand for one. Strings are sequences of 8-bit characters.
\<close>

datatype jsval = Undefined | Null | Bool bool | Num int | Str string

text \<open>The error classes: \<open>BadRequestError\<close> is thrown in \<open>Company.findAll\<close>;
  \<open>InvalidArgument\<close> is the error of the partial-update builder.\<close>

datatype error = BadRequestError string | InvalidArgument string

text \<open>Decimal digits of a natural number, as \<open>String(n)\<close> prints an array length.\<close>

definition digit_char :: "nat \<Rightarrow> char" where
  "digit_char d = ''0123456789'' ! d"

fun show_nat :: "nat \<Rightarrow> string" where
  "show_nat n = (if n < 10 then [digit_char n] else show_nat (n div 10) @ [digit_char (n mod 10)])"

declare show_nat.simps [simp del]

text \<open>
  \<open>Number::toString\<close> for an integer-valued number. Up to \<open>2^53\<close> every integer is a
  number of its own and prints as its decimal digits. Above, the numbers are spaced
  \<open>ulp n\<close> apart, and the text is the shortest decimal that reads back as the same
  number: \<open>rounds_to n v\<close> holds when the decimal value \<open>v\<close> lies in the rounding
  interval of \<open>n\<close> (its ends included when the significand of \<open>n\<close> is even; the lower
  half-interval is half as wide at a power of two); the bounds are compared in quarters
  of a unit to stay within the integers.
\<close>

function decimal :: "int \<Rightarrow> string" where
  "decimal n = (if n < 10 then [digit_char (nat n)]
                else decimal (n div 10) @ [digit_char (nat (n mod 10))])"
  by pat_completeness auto
termination
  by (relation "measure nat") auto

declare decimal.simps [simp del]

function ulp :: "int \<Rightarrow> int" where
  "ulp n = (if n < 2 ^ 53 then 1 else 2 * ulp (n div 2))"
  by pat_completeness auto
termination
  by (relation "measure nat") auto

declare ulp.simps [simp del]

definition rounds_to :: "int \<Rightarrow> int \<Rightarrow> bool" where
  "rounds_to n v =
     (let u = ulp n;
          lo = 4 * n - (if n = 2 ^ 52 * u then u else 2 * u);
          hi = 4 * n + 2 * u
      in if even (n div u) then lo \<le> 4 * v \<and> 4 * v \<le> hi else lo < 4 * v \<and> 4 * v < hi)"

text \<open>
  The two multiples of \<open>p\<close> around \<open>n\<close>: the one that reads back as \<open>n\<close>, the closer one
  when both do, the one with the even last digit when they are equally close.
\<close>

definition shortest_at :: "int \<Rightarrow> int \<Rightarrow> int option" where
  "shortest_at n p =
     (let a = (n div p) * p;
          b = a + p
      in if rounds_to n a \<and> rounds_to n b
         then Some (if n - a < b - n then a
                    else if b - n < n - a then b
                    else if even (n div p) then a else b)
         else if rounds_to n a then Some a
         else if rounds_to n b then Some b
         else None)"

text \<open>The decimal with the fewest significant digits: the powers of ten are tried from
  the largest down, and \<open>p = 1\<close> gives \<open>n\<close> itself.\<close>

definition shortest :: "int \<Rightarrow> int" where
  "shortest n =
     (case List.map_filter (\<lambda>j. shortest_at n (10 ^ j)) (rev [0..<length (decimal n)]) of
        [] \<Rightarrow> n
      | v # vs \<Rightarrow> v)"

text \<open>Up to 21 digits the decimal is printed in full; a longer one as its significant
  digits, a point after the first, and the exponent.\<close>

definition exponent_text :: "int \<Rightarrow> string" where
  "exponent_text v =
     (let ds = decimal v;
          sig = rev (dropWhile (\<lambda>c. c = CHR ''0'') (rev ds))
      in if length ds \<le> 21 then ds
         else (case sig of
                 [] \<Rightarrow> []
               | d # rest \<Rightarrow> (if rest = [] then [d] else d # CHR ''.'' # rest))
              @ ''e+'' @ show_nat (length ds - 1))"

definition number_text :: "int \<Rightarrow> string" where
  "number_text i =
     (let m = \<bar>i\<bar>;
          t = (if m \<le> 2 ^ 53 then decimal m else exponent_text (shortest m))
      in if i < 0 then CHR ''-'' # t else t)"

text \<open>\<open>ToString\<close>, as a template literal \<open>`${v}`\<close> applies it.\<close>

fun ToString :: "jsval \<Rightarrow> string" where
  "ToString Undefined = ''undefined''"
| "ToString Null = ''null''"
| "ToString (Bool b) = (if b then ''true'' else ''false'')"
| "ToString (Num n) = number_text n"
| "ToString (Str s) = s"

text \<open>\<open>ToBoolean\<close>, the test of \<open>if (v)\<close>.\<close>

fun truthy :: "jsval \<Rightarrow> bool" where
  "truthy Undefined = False"
| "truthy Null = False"
| "truthy (Bool b) = b"
| "truthy (Num n) = (n \<noteq> 0)"
| "truthy (Str s) = (s \<noteq> [])"

text \<open>\<open>Array.prototype.join\<close> on an array of strings.\<close>

fun join :: "string \<Rightarrow> string list \<Rightarrow> string" where
  "join sep [] = []"
| "join sep [x] = x"
| "join sep (x # y # ys) = x @ sep @ join sep (y # ys)"

section \<open>The filter accumulators\<close>

text \<open>The two local arrays of \<open>findAll\<close>: \<open>whereExpressions\<close> and \<open>queryValues\<close>.\<close>

record acc =
  whereExpressions :: "string list"
  queryValues :: "jsval list"

definition init_acc :: acc where
  "init_acc = \<lparr>whereExpressions = [], queryValues = []\<rparr>"

text \<open>
  \<open>queryValues.push(v); whereExpressions.push(`<pred>$${queryValues.length}`)\<close>:
  the value is pushed first, so the placeholder number is the new length.
\<close>

definition push_bound :: "string \<Rightarrow> jsval \<Rightarrow> acc \<Rightarrow> acc" where
  "push_bound pred v st =
     (let vs = queryValues st @ [v]
      in \<lparr>whereExpressions = whereExpressions st @ [pred @ show_nat (length vs)],
          queryValues = vs\<rparr>)"

text \<open>\<open>whereExpressions.push(e)\<close> alone.\<close>

definition push_fixed :: "string \<Rightarrow> acc \<Rightarrow> acc" where
  "push_fixed e st = st\<lparr>whereExpressions := whereExpressions st @ [e]\<rparr>"

text \<open>\<open>if (whereExpressions.length > 0) baseQuery += " WHERE " + whereExpressions.join(" AND ")\<close>\<close>

definition add_where :: "string \<Rightarrow> string list \<Rightarrow> string" where
  "add_where baseQuery ws =
     (if length ws > 0 then baseQuery @ '' WHERE '' @ join '' AND '' ws else baseQuery)"

section \<open>Job.findAll\<close>

text \<open>The destructured argument \<open>{ minSalary, hasEquity, title }\<close>; a missing key is
  \<open>Undefined\<close>.\<close>

record job_criteria =
  title :: jsval
  minSalary :: jsval
  hasEquity :: jsval

definition Job_base :: string where
  \<open>Job_base = ''SELECT j.id,\<newline>                        j.title,\<newline>                        j.salary,\<newline>                        j.equity,\<newline>                        j.company_handle AS "companyHandle",\<newline>                        c.name AS "companyName"\<newline>                    FROM jobs j \<newline>                    LEFT JOIN companies AS c ON c.handle = j.company_handle''\<close>

text \<open>The three \<open>if\<close> blocks of \<open>Job.findAll\<close>, in source order.\<close>

definition Job_filters :: "job_criteria \<Rightarrow> acc" where
  "Job_filters c =
     (let st0 = init_acc;
          st1 = (if title c \<noteq> Undefined
                 then push_bound ''title ILIKE $'' (Str (''%'' @ ToString (title c) @ ''%'')) st0
                 else st0);
          st2 = (if minSalary c \<noteq> Undefined
                 then push_bound ''salary >= $'' (minSalary c) st1
                 else st1);
          st3 = (if hasEquity c = Bool True
                 then push_fixed ''equity > 0'' st2
                 else st2)
      in st3)"

text \<open>The statement and the parameter array that \<open>Job.findAll\<close> hands to \<open>db.query\<close>.\<close>

definition Job_findAll :: "job_criteria \<Rightarrow> string \<times> jsval list" where
  "Job_findAll c =
     (let st = Job_filters c;
          baseQuery = add_where Job_base (whereExpressions st)
      in (baseQuery @ '' ORDER BY title'', queryValues st))"

section \<open>Company.findAll\<close>

text \<open>
  \<open>const { name, minEmployees, maxEmployees } = searchFilters\<close>. The two bounds are
  numbers or absent (\<open>None\<close> is \<open>undefined\<close>): the route layer parses and types them
  before the model is called. The name is any JavaScript value.
\<close>

record company_criteria =
  name :: jsval
  minEmployees :: "int option"
  maxEmployees :: "int option"

definition Company_base :: string where
  \<open>Company_base = ''SELECT handle,\<newline>                  name,\<newline>                  description,\<newline>                  num_employees AS "numEmployees",\<newline>                  logo_url AS "logoUrl"\<newline>           FROM companies''\<close>

text \<open>\<open>a > b\<close> on two optional numbers: a comparison with \<open>undefined\<close> is a comparison
  with \<open>NaN\<close>, which is false.\<close>

fun js_gt :: "int option \<Rightarrow> int option \<Rightarrow> bool" where
  "js_gt (Some a) (Some b) = (a > b)"
| "js_gt _ _ = False"

text \<open>The state after the \<open>if (name)\<close> block, in which the min/max check then runs.\<close>

definition Company_name_filter :: "company_criteria \<Rightarrow> acc" where
  "Company_name_filter c =
     (if truthy (name c)
      then push_bound ''name ILIKE $'' (Str (''%'' @ ToString (name c) @ ''%'')) init_acc
      else init_acc)"

text \<open>
  The accumulation of \<open>Company.findAll\<close>, in source order: the name block, the bounds
  check, the two bound blocks. \<open>Inl (e, st)\<close> is the error \<open>e\<close> thrown while the two local
  arrays hold \<open>st\<close>; \<open>Inr st\<close> is the arrays when all blocks have run.
\<close>

definition Company_filters :: "company_criteria \<Rightarrow> error \<times> acc + acc" where
  "Company_filters c =
     (let st1 = Company_name_filter c
      in if js_gt (minEmployees c) (maxEmployees c)
         then Inl (BadRequestError ''Minimum employees cannot be exceed maximum number of employees.'',
                   st1)
         else
           (let st2 = (case minEmployees c of
                         Some m \<Rightarrow> push_bound ''num_employees >= $'' (Num m) st1
                       | None \<Rightarrow> st1);
                st3 = (case maxEmployees c of
                         Some m \<Rightarrow> push_bound ''num_employees <= $'' (Num m) st2
                       | None \<Rightarrow> st2)
            in Inr st3))"

text \<open>The statement and the parameter array that \<open>Company.findAll\<close> hands to
  \<open>db.query\<close>, or the error it throws (the local arrays are lost with the throw).\<close>

definition Company_findAll :: "company_criteria \<Rightarrow> error + string \<times> jsval list" where
  "Company_findAll c =
     (case Company_filters c of
        Inl (e, st) \<Rightarrow> Inl e
      | Inr st \<Rightarrow>
          (let baseQuery = add_where Company_base (whereExpressions st)
           in Inr (baseQuery @ '' ORDER BY name'', queryValues st)))"

section \<open>The partial-update builder\<close>

text \<open>
  An update request is the list of the object's own keys with their values, in the order
  in which \<open>Object.keys\<close> enumerates them. The alias map sends a field name to its
  column name.
\<close>

type_synonym updates = "(string \<times> jsval) list"
type_synonym aliases = "string \<rightharpoonup> string"

text \<open>The builder's result \<open>{ setCols, values }\<close>.\<close>

record clause =
  setCols :: string
  values' :: "jsval list"

text \<open>The storage column of a key: its alias, or the key itself.\<close>

definition column :: "aliases \<Rightarrow> string \<Rightarrow> string" where
  "column al k = (case al k of Some c \<Rightarrow> c | None \<Rightarrow> k)"

text \<open>The fragment \<open>column = $position\<close> of the key at 0-based index \<open>i\<close>: its position is \<open>i + 1\<close>.\<close>

definition fragment :: "aliases \<Rightarrow> nat \<times> string \<Rightarrow> string" where
  "fragment al p = column al (snd p) @ '' = $'' @ show_nat (fst p + 1)"

text \<open>
  Modelled from the spec: \<open>sqlForPartialUpdate\<close> of helpers/sql.js, which the models
  import and which is not among the sources. An empty mapping fails with
  \<open>InvalidArgument\<close> ("no data") before anything is built; otherwise there is one
  fragment per key in iteration order, numbered from 1, the fragments joined with
  \<open>", "\<close>, and the values in the same order.
\<close>

definition sqlForPartialUpdate :: "updates \<Rightarrow> aliases \<Rightarrow> error + clause" where
  "sqlForPartialUpdate dataToUpdate jsToSql =
     (if dataToUpdate = [] then Inl (InvalidArgument ''no data'')
      else Inr \<lparr>setCols = join '', '' (map (fragment jsToSql) (enumerate 0 (map fst dataToUpdate))),
               values' = map snd dataToUpdate\<rparr>)"

section \<open>Job.update and Company.update\<close>

definition Job_update_head :: string where
  \<open>Job_update_head = ''UPDATE jobs \<newline>                      SET ''\<close>

definition Job_update_mid :: string where
  \<open>Job_update_mid = '' \<newline>                      WHERE id = ''\<close>

definition Job_update_tail :: string where
  \<open>Job_update_tail = '' \<newline>                      RETURNING id, \<newline>                                title, \<newline>                                salary, \<newline>                                equity,\<newline>                                company_handle AS "companyHandle"''\<close>

text \<open>
  The statement and the parameter array that \<open>Job.update\<close> hands to \<open>db.query\<close>, or
  the builder's error, which \<open>Job.update\<close> does not catch.
\<close>

definition Job_update :: "jsval \<Rightarrow> updates \<Rightarrow> error + string \<times> jsval list" where
  "Job_update jid data =
     (case sqlForPartialUpdate data Map.empty of
        Inl e \<Rightarrow> Inl e
      | Inr r \<Rightarrow>
          (let idVarIdx = ''$'' @ show_nat (length (values' r) + 1);
               querySql = Job_update_head @ setCols r @ Job_update_mid @ idVarIdx @ Job_update_tail
           in Inr (querySql, values' r @ [jid])))"

definition Company_update_head :: string where
  \<open>Company_update_head = ''UPDATE companies \<newline>                      SET ''\<close>

definition Company_update_mid :: string where
  \<open>Company_update_mid = '' \<newline>                      WHERE handle = ''\<close>

definition Company_update_tail :: string where
  \<open>Company_update_tail = '' \<newline>                      RETURNING handle, \<newline>                                name, \<newline>                                description, \<newline>                                num_employees AS "numEmployees", \<newline>                                logo_url AS "logoUrl"''\<close>

text \<open>The alias object literal of \<open>Company.update\<close>.\<close>

definition Company_aliases :: aliases where
  "Company_aliases = map_of [(''numEmployees'', ''num_employees''), (''logoUrl'', ''logo_url'')]"

definition Company_update :: "jsval \<Rightarrow> updates \<Rightarrow> error + string \<times> jsval list" where
  "Company_update handle data =
     (case sqlForPartialUpdate data Company_aliases of
        Inl e \<Rightarrow> Inl e
      | Inr r \<Rightarrow>
          (let handleVarIdx = ''$'' @ show_nat (length (values' r) + 1);
               querySql = Company_update_head @ setCols r @ Company_update_mid @ handleVarIdx
                          @ Company_update_tail
           in Inr (querySql, values' r @ [handle])))"

section \<open>Reading a statement back\<close>

text \<open>
  The positional placeholders of a statement text, left to right: each \<open>$\<close> that is
  followed by at least one decimal digit, with the number its digits denote.
\<close>

definition is_digit :: "char \<Rightarrow> bool" where
  "is_digit c = (c \<in> set ''0123456789'')"

definition digit_val :: "char \<Rightarrow> nat" where
  "digit_val c = of_char c - 48"

definition read_nat :: "string \<Rightarrow> nat" where
  "read_nat ds = foldl (\<lambda>a d. 10 * a + digit_val d) 0 ds"

primrec placeholders :: "string \<Rightarrow> nat list" where
  "placeholders [] = []"
| "placeholders (c # cs) =
     (if c = CHR ''$'' \<and> takeWhile is_digit cs \<noteq> []
      then read_nat (takeWhile is_digit cs) # placeholders cs
      else placeholders cs)"

text \<open>
  The fields that the two update functions document as their data
  (\<open>Data may include: { title, salary, equity }\<close>,
  \<open>Data can include: {name, description, numEmployees, logoUrl}\<close>), and the columns of the
  two tables as the statements of the models name them.
\<close>

definition Job_update_fields :: "string list" where
  "Job_update_fields = [''title'', ''salary'', ''equity'']"

definition Company_update_fields :: "string list" where
  "Company_update_fields = [''name'', ''description'', ''numEmployees'', ''logoUrl'']"




definition blank :: "char \<Rightarrow> bool" where
  "blank c = (c = CHR '' '')"

fun pieces :: "string \<Rightarrow> string list" where
  "pieces [] = [[]]"
| "pieces (c # cs) =
     (if c = CHR '','' then [] # pieces cs
      else (case pieces cs of [] \<Rightarrow> [[c]] | f # fs \<Rightarrow> (c # f) # fs))"







section \<open>Decimal numerals and the placeholder reader\<close>

lemma below_ten:
  "d < 10 \<Longrightarrow> d = 0 \<or> d = 1 \<or> d = 2 \<or> d = 3 \<or> d = 4 \<or> d = 5 \<or> d = 6 \<or> d = 7 \<or> d = 8 \<or> d = (9::nat)"
  by arith

lemma is_digit_digit_char: "d < 10 \<Longrightarrow> is_digit (digit_char d)"
  using below_ten[of d] by (auto simp: is_digit_def digit_char_def)

lemma digit_val_digit_char: "d < 10 \<Longrightarrow> digit_val (digit_char d) = d"
  using below_ten[of d] by (auto simp: digit_val_def digit_char_def)

lemma show_nat_digits: "c \<in> set (show_nat n) \<Longrightarrow> is_digit c"
proof (induction n arbitrary: c rule: show_nat.induct)
  case (1 n)
  show ?case
  proof (cases "n < 10")
    case True
    with 1(2) show ?thesis by (simp add: show_nat.simps[of n] is_digit_digit_char)
  next
    case False
    with 1 show ?thesis
      by (auto simp: show_nat.simps[of n] is_digit_digit_char)
  qed
qed

lemma show_nat_nonempty: "show_nat n \<noteq> []"
  by (simp add: show_nat.simps[of n])

lemma read_nat_snoc: "read_nat (ds @ [d]) = 10 * read_nat ds + digit_val d"
  by (simp add: read_nat_def)

lemma read_show_nat: "read_nat (show_nat n) = n"
proof (induction n rule: show_nat.induct)
  case (1 n)
  show ?case
  proof (cases "n < 10")
    case True
    then show ?thesis by (simp add: show_nat.simps[of n] read_nat_def digit_val_digit_char)
  next
    case False
    with 1 show ?thesis
      by (simp add: show_nat.simps[of n] read_nat_snoc digit_val_digit_char)
  qed
qed

lemma show_nat_small:
  "show_nat (Suc 0) = ''1''" "show_nat (Suc (Suc 0)) = ''2''" "show_nat (Suc (Suc (Suc 0))) = ''3''"
  by (simp_all add: show_nat.simps digit_char_def eval_nat_numeral)

text \<open>The number texts at both ends of the plain range and beyond it.\<close>

lemma number_text_examples:
  "number_text 50000 = ''50000''"
  "number_text (- 45) = ''-45''"
  "number_text (2 ^ 53) = ''9007199254740992''"
  "number_text (2 ^ 60) = ''1152921504606847000''"
  "number_text (10 ^ 21) = ''1e+21''"
  "number_text (2 ^ 70) = ''1.1805916207174113e+21''"
  by code_simp+

lemma takeWhile_digits_stop:
  "\<not> is_digit x \<Longrightarrow> takeWhile is_digit (cs @ x # r) = takeWhile is_digit cs"
  by (induction cs) auto

lemma placeholders_append_stop:
  "\<not> is_digit x \<Longrightarrow> placeholders (a @ x # r) = placeholders a @ placeholders (x # r)"
  by (induction a) (auto simp: takeWhile_digits_stop)

lemma placeholders_Job_base: "placeholders Job_base = []"
  by code_simp

lemma placeholders_Company_base: "placeholders Company_base = []"
  by code_simp

lemmas findAll_defs =
  Job_findAll_def Job_filters_def Company_findAll_def Company_filters_def
  Company_name_filter_def push_bound_def push_fixed_def add_where_def init_acc_def Let_def

lemma Job_stmt_placeholders:
  "placeholders (fst (Job_findAll c)) = [1..<Suc (length (snd (Job_findAll c)))]"
  by (simp add: findAll_defs show_nat_small placeholders_append_stop placeholders_Job_base
      is_digit_def read_nat_def digit_val_def)

lemma Company_stmt_placeholders:
  "Company_findAll c = Inr (stmt, vals) \<Longrightarrow> placeholders stmt = [1..<Suc (length vals)]"
  by (auto simp add: findAll_defs show_nat_small placeholders_append_stop placeholders_Company_base
      is_digit_def read_nat_def digit_val_def split: if_splits option.splits)

section \<open>Placeholder alignment of the composed queries\<close>

text \<open>
  Claim C1. Whatever the criteria, the statement that \<open>Job.findAll\<close> composes, and the
  statement that \<open>Company.findAll\<close> composes when it does not reject the criteria, has
  as many positional placeholders as the value list has elements, and the placeholders
  read left to right are \<open>$1, $2, ...\<close> in strictly increasing order.
\<close>

theorem findAll_placeholders_match_values:
  assumes "Job_findAll jc = (stmt, vals) \<or> Company_findAll cc = Inr (stmt, vals)"
  shows "length (placeholders stmt) = length vals
       \<and> sorted_wrt (<) (placeholders stmt)
       \<and> placeholders stmt = [1..<Suc (length vals)]"
proof -
  have eq: "placeholders stmt = [1..<Suc (length vals)]"
    using assms
  proof
    assume "Job_findAll jc = (stmt, vals)"
    then show ?thesis using Job_stmt_placeholders[of jc] by simp
  next
    assume "Company_findAll cc = Inr (stmt, vals)"
    then show ?thesis by (rule Company_stmt_placeholders)
  qed
  then show ?thesis by (simp del: upt_Suc)
qed

theorem findAll_placeholders_match_values_witness:
  "Job_findAll \<lparr>title = Str ''eng'', minSalary = Num 50000, hasEquity = Bool True\<rparr>
     = (Job_base @ '' WHERE title ILIKE $1 AND salary >= $2 AND equity > 0 ORDER BY title'',
        [Str ''%eng%'', Num 50000])
   \<and> placeholders (Job_base @ '' WHERE title ILIKE $1 AND salary >= $2 AND equity > 0 ORDER BY title'') = [1, 2]
   \<and> Company_findAll \<lparr>name = Str ''net'', minEmployees = Some 1, maxEmployees = Some 5\<rparr>
     = Inr (Company_base @ '' WHERE name ILIKE $1 AND num_employees >= $2 AND num_employees <= $3 ORDER BY name'',
        [Str ''%net%'', Num 1, Num 5])
   \<and> placeholders (Company_base @ '' WHERE name ILIKE $1 AND num_employees >= $2 AND num_employees <= $3 ORDER BY name'') = [1, 2, 3]"
proof -
  let ?jc = "\<lparr>title = Str ''eng'', minSalary = Num 50000, hasEquity = Bool True\<rparr>"
  let ?js = "Job_base @ '' WHERE title ILIKE $1 AND salary >= $2 AND equity > 0 ORDER BY title''"
  let ?cc = "\<lparr>name = Str ''net'', minEmployees = Some 1, maxEmployees = Some 5\<rparr>"
  let ?cs = "Company_base @ '' WHERE name ILIKE $1 AND num_employees >= $2 AND num_employees <= $3 ORDER BY name''"
  have j: "Job_findAll ?jc = (?js, [Str ''%eng%'', Num 50000])"
    by (simp add: findAll_defs show_nat_small)
  have c: "Company_findAll ?cc = Inr (?cs, [Str ''%net%'', Num 1, Num 5])"
    by (simp add: findAll_defs show_nat_small)
  have "placeholders ?js = [1..<Suc (length [Str ''%eng%'', Num 50000])]"
    using findAll_placeholders_match_values[of ?jc ?js "[Str ''%eng%'', Num 50000]" ?cc] j by blast
  moreover have "placeholders ?cs = [1..<Suc (length [Str ''%net%'', Num 1, Num 5])]"
    using findAll_placeholders_match_values[of ?jc ?cs "[Str ''%net%'', Num 1, Num 5]" ?cc] c by blast
  ultimately show ?thesis using j c by (simp add: upt_rec)
qed

section \<open>The equity flag\<close>

text \<open>
  Claim C6. In \<open>Job.findAll\<close>, a \<open>hasEquity\<close> that is \<open>true\<close> appends the fixed
  predicate \<open>equity > 0\<close> after the other predicates and binds no value for it; an absent
  or \<open>false\<close> flag appends no equity predicate; and the value list never depends on the
  flag, so the flag is never a bound parameter.
\<close>

theorem hasEquity_fixed_predicate_unbound:
  "(hasEquity c = Bool True \<longrightarrow>
      whereExpressions (Job_filters c)
        = whereExpressions (Job_filters (c\<lparr>hasEquity := Undefined\<rparr>)) @ [''equity > 0''])
   \<and> (hasEquity c = Undefined \<or> hasEquity c = Bool False \<longrightarrow>
      ''equity > 0'' \<notin> set (whereExpressions (Job_filters c)))
   \<and> queryValues (Job_filters c) = queryValues (Job_filters (c\<lparr>hasEquity := Undefined\<rparr>))
   \<and> snd (Job_findAll c) = snd (Job_findAll (c\<lparr>hasEquity := h\<rparr>))"
  by (simp add: findAll_defs show_nat_small)

theorem hasEquity_fixed_predicate_unbound_witness:
  "Job_findAll \<lparr>title = Undefined, minSalary = Num 50000, hasEquity = Bool True\<rparr>
     = (Job_base @ '' WHERE salary >= $1 AND equity > 0 ORDER BY title'', [Num 50000])
   \<and> whereExpressions (Job_filters \<lparr>title = Undefined, minSalary = Num 50000, hasEquity = Bool True\<rparr>)
     = [''salary >= $1'', ''equity > 0'']
   \<and> ''equity > 0'' \<notin> set (whereExpressions
         (Job_filters \<lparr>title = Undefined, minSalary = Num 50000, hasEquity = Bool False\<rparr>))
   \<and> queryValues (Job_filters \<lparr>title = Undefined, minSalary = Num 50000, hasEquity = Bool True\<rparr>)
     = [Num 50000]"
proof -
  let ?t = "\<lparr>title = Undefined, minSalary = Num 50000, hasEquity = Bool True\<rparr>"
  let ?f = "\<lparr>title = Undefined, minSalary = Num 50000, hasEquity = Bool False\<rparr>"
  have u: "Job_filters (?t\<lparr>hasEquity := Undefined\<rparr>)
             = \<lparr>whereExpressions = [''salary >= $1''], queryValues = [Num 50000]\<rparr>"
    by (simp add: findAll_defs show_nat_small)
  have s: "Job_findAll ?t = (Job_base @ '' WHERE salary >= $1 AND equity > 0 ORDER BY title'', [Num 50000])"
    by (simp add: findAll_defs show_nat_small)
  from hasEquity_fixed_predicate_unbound[of ?t] hasEquity_fixed_predicate_unbound[of ?f] u s
  show ?thesis by simp
qed

text \<open>
  Claim C9. The equity predicate is among the predicates of \<open>Job.findAll\<close> exactly when
  \<open>hasEquity\<close> is the boolean \<open>true\<close>; for any other value, truthy ones such as the
  string \<open>"true"\<close> or the number 1 included, the accumulators and the composed query are
  those of the absent flag.
\<close>

theorem hasEquity_strict_true_only:
  "(''equity > 0'' \<in> set (whereExpressions (Job_filters c)) \<longleftrightarrow> hasEquity c = Bool True)
   \<and> (h \<noteq> Bool True \<longrightarrow>
        Job_filters (c\<lparr>hasEquity := h\<rparr>) = Job_filters (c\<lparr>hasEquity := Undefined\<rparr>)
        \<and> Job_findAll (c\<lparr>hasEquity := h\<rparr>) = Job_findAll (c\<lparr>hasEquity := Undefined\<rparr>))"
  by (simp add: findAll_defs show_nat_small)

theorem hasEquity_strict_true_only_witness:
  "Str ''true'' \<noteq> Bool True \<and> Num 1 \<noteq> Bool True
   \<and> Job_findAll \<lparr>title = Undefined, minSalary = Undefined, hasEquity = Str ''true''\<rparr>
       = (Job_base @ '' ORDER BY title'', [])
   \<and> Job_findAll \<lparr>title = Undefined, minSalary = Undefined, hasEquity = Num 1\<rparr>
       = (Job_base @ '' ORDER BY title'', [])
   \<and> ''equity > 0'' \<notin> set (whereExpressions
          (Job_filters \<lparr>title = Undefined, minSalary = Undefined, hasEquity = Num 1\<rparr>))"
proof -
  let ?c = "\<lparr>title = Undefined, minSalary = Undefined, hasEquity = Undefined\<rparr>"
  have u: "Job_findAll ?c = (Job_base @ '' ORDER BY title'', [])"
    by (simp add: findAll_defs)
  from hasEquity_strict_true_only[of "?c\<lparr>hasEquity := Num 1\<rparr>" "Num 1"]
       hasEquity_strict_true_only[of ?c "Str ''true''"] u
  show ?thesis by simp
qed

section \<open>No criteria, and the ordering clause\<close>

lemma no_WHERE_in_bases:
  "\<not> sublist ''WHERE'' (Job_base @ '' ORDER BY title'')"
  "\<not> sublist ''WHERE'' (Company_base @ '' ORDER BY name'')"
  by code_simp+

text \<open>
  Claim C4. With every criterion absent, both composers return their base statement
  followed by the ordering clause, with no \<open>WHERE\<close> in it, and an empty value list. For
  every input, the composed statement is the base statement, then the \<open>WHERE\<close> clause
  when there is a predicate and nothing otherwise, then \<open>ORDER BY title\<close> for jobs and
  \<open>ORDER BY name\<close> for companies.
\<close>

theorem findAll_no_criteria_and_order:
  "Job_findAll \<lparr>title = Undefined, minSalary = Undefined, hasEquity = Undefined\<rparr>
     = (Job_base @ '' ORDER BY title'', [])
   \<and> \<not> sublist ''WHERE'' (Job_base @ '' ORDER BY title'')
   \<and> Company_findAll \<lparr>name = Undefined, minEmployees = None, maxEmployees = None\<rparr>
     = Inr (Company_base @ '' ORDER BY name'', [])
   \<and> \<not> sublist ''WHERE'' (Company_base @ '' ORDER BY name'')
   \<and> fst (Job_findAll jc)
     = Job_base
       @ (if whereExpressions (Job_filters jc) = [] then []
          else '' WHERE '' @ join '' AND '' (whereExpressions (Job_filters jc)))
       @ '' ORDER BY title''
   \<and> (Company_filters cc = Inr st \<longrightarrow>
       Company_findAll cc
       = Inr (Company_base
              @ (if whereExpressions st = [] then []
                 else '' WHERE '' @ join '' AND '' (whereExpressions st))
              @ '' ORDER BY name'', queryValues st))"
  by (simp add: no_WHERE_in_bases)
    (simp add: Job_findAll_def Company_findAll_def add_where_def Let_def
               Job_filters_def Company_filters_def Company_name_filter_def init_acc_def)

theorem findAll_no_criteria_and_order_witness:
  "Company_filters \<lparr>name = Str ''net'', minEmployees = None, maxEmployees = Some 5\<rparr>
     = Inr \<lparr>whereExpressions = [''name ILIKE $1'', ''num_employees <= $2''],
            queryValues = [Str ''%net%'', Num 5]\<rparr>
   \<and> Company_findAll \<lparr>name = Str ''net'', minEmployees = None, maxEmployees = Some 5\<rparr>
     = Inr (Company_base @ '' WHERE name ILIKE $1 AND num_employees <= $2 ORDER BY name'',
            [Str ''%net%'', Num 5])"
proof -
  let ?c = "\<lparr>name = Str ''net'', minEmployees = None, maxEmployees = Some 5\<rparr>"
  let ?st = "\<lparr>whereExpressions = [''name ILIKE $1'', ''num_employees <= $2''],
              queryValues = [Str ''%net%'', Num 5]\<rparr>"
  have f: "Company_filters ?c = Inr ?st"
    by (simp add: findAll_defs show_nat_small)
  from findAll_no_criteria_and_order[of _ ?c ?st] f show ?thesis by simp
qed

section \<open>The text criterion\<close>

lemma Job_ILIKE_predicates:
  "filter (sublist ''ILIKE'') (whereExpressions (Job_filters c))
     = (if title c \<noteq> Undefined then [''title ILIKE $1''] else [])"
  by (simp add: findAll_defs show_nat_small sublist_Cons_right)

lemma Job_title_value:
  "title c \<noteq> Undefined \<Longrightarrow>
     queryValues (Job_filters c)
       = Str (''%'' @ ToString (title c) @ ''%'')
         # (if minSalary c \<noteq> Undefined then [minSalary c] else [])"
  by (simp add: findAll_defs)

lemma Company_ILIKE_predicates:
  "Company_filters c = Inr st \<Longrightarrow>
     filter (sublist ''ILIKE'') (whereExpressions st)
       = (if truthy (name c) then [''name ILIKE $1''] else [])"
  by (auto simp add: findAll_defs show_nat_small sublist_Cons_right split: if_splits option.splits)

lemma Company_bound_values:
  "Company_filters c = Inr st \<Longrightarrow>
     queryValues st
       = (if truthy (name c) then [Str (''%'' @ ToString (name c) @ ''%'')] else [])
         @ (case minEmployees c of None \<Rightarrow> [] | Some m \<Rightarrow> [Num m])
         @ (case maxEmployees c of None \<Rightarrow> [] | Some m \<Rightarrow> [Num m])"
  by (auto simp add: findAll_defs split: if_splits option.splits)

lemma Company_filters_falsy_name:
  "\<not> truthy n \<Longrightarrow> Company_filters (cc\<lparr>name := n\<rparr>) = Company_filters (cc\<lparr>name := Undefined\<rparr>)"
  by (simp add: Company_filters_def Company_name_filter_def cong: option.case_cong)

text \<open>
  Claim C5 says that a text criterion that is present (not \<open>undefined\<close>) always gives one
  \<open>ILIKE\<close> predicate with the wrapped value bound. \<open>Company.findAll\<close> tests \<open>if (name)\<close>:
  the empty string is present and gives no predicate and no value.
\<close>

theorem empty_name_no_predicate_counterexample:
  "name \<lparr>name = Str '''', minEmployees = None, maxEmployees = None\<rparr> \<noteq> Undefined
   \<and> Company_filters \<lparr>name = Str '''', minEmployees = None, maxEmployees = None\<rparr>
       = Inr \<lparr>whereExpressions = [], queryValues = []\<rparr>
   \<and> Company_findAll \<lparr>name = Str '''', minEmployees = None, maxEmployees = None\<rparr>
       = Inr (Company_base @ '' ORDER BY name'', [])"
  by (simp add: findAll_defs)

text \<open>
  Claim C5, amended. In \<open>Job.findAll\<close> a title other than \<open>undefined\<close>, and in
  \<open>Company.findAll\<close> a truthy name (when the criteria are not rejected), gives exactly one
  \<open>ILIKE\<close> predicate, \<open>title ILIKE $1\<close> or \<open>name ILIKE $1\<close>, and the value bound at position
  1 is the criterion's string form between two \<open>%\<close> signs, followed only by the values
  of the numeric criteria. A falsy name gives no \<open>ILIKE\<close> predicate and binds no value:
  the value list holds the numeric bounds alone, and the accumulators are those of the
  absent name.
\<close>

theorem text_criterion_predicate:
  "(title jc \<noteq> Undefined \<longrightarrow>
      filter (sublist ''ILIKE'') (whereExpressions (Job_filters jc)) = [''title ILIKE $1'']
      \<and> queryValues (Job_filters jc) ! 0 = Str (''%'' @ ToString (title jc) @ ''%'')
      \<and> queryValues (Job_filters jc)
          = Str (''%'' @ ToString (title jc) @ ''%'')
            # (if minSalary jc \<noteq> Undefined then [minSalary jc] else []))
   \<and> (Company_filters cc = Inr st \<and> truthy (name cc) \<longrightarrow>
      filter (sublist ''ILIKE'') (whereExpressions st) = [''name ILIKE $1'']
      \<and> queryValues st ! 0 = Str (''%'' @ ToString (name cc) @ ''%'')
      \<and> queryValues st
          = Str (''%'' @ ToString (name cc) @ ''%'')
            # (case minEmployees cc of None \<Rightarrow> [] | Some m \<Rightarrow> [Num m])
            @ (case maxEmployees cc of None \<Rightarrow> [] | Some m \<Rightarrow> [Num m]))
   \<and> (Company_filters cc = Inr st \<and> \<not> truthy (name cc) \<longrightarrow>
      filter (sublist ''ILIKE'') (whereExpressions st) = []
      \<and> queryValues st
          = (case minEmployees cc of None \<Rightarrow> [] | Some m \<Rightarrow> [Num m])
            @ (case maxEmployees cc of None \<Rightarrow> [] | Some m \<Rightarrow> [Num m])
      \<and> Company_filters (cc\<lparr>name := Undefined\<rparr>) = Inr st)"
proof (intro conjI impI)
  assume t: "title jc \<noteq> Undefined"
  from Job_ILIKE_predicates[of jc] t
  show "filter (sublist ''ILIKE'') (whereExpressions (Job_filters jc)) = [''title ILIKE $1'']"
    by simp
  from Job_title_value[OF t]
  show "queryValues (Job_filters jc)
          = Str (''%'' @ ToString (title jc) @ ''%'')
            # (if minSalary jc \<noteq> Undefined then [minSalary jc] else [])" .
  then show "queryValues (Job_filters jc) ! 0 = Str (''%'' @ ToString (title jc) @ ''%'')"
    by simp
next
  assume a: "Company_filters cc = Inr st \<and> truthy (name cc)"
  from Company_ILIKE_predicates[of cc st] a
  show "filter (sublist ''ILIKE'') (whereExpressions st) = [''name ILIKE $1'']" by simp
  from Company_bound_values[of cc st] a
  show v: "queryValues st
          = Str (''%'' @ ToString (name cc) @ ''%'')
            # (case minEmployees cc of None \<Rightarrow> [] | Some m \<Rightarrow> [Num m])
            @ (case maxEmployees cc of None \<Rightarrow> [] | Some m \<Rightarrow> [Num m])" by simp
  show "queryValues st ! 0 = Str (''%'' @ ToString (name cc) @ ''%'')"
    by (simp add: v)
next
  assume a: "Company_filters cc = Inr st \<and> \<not> truthy (name cc)"
  from Company_ILIKE_predicates[of cc st] a
  show "filter (sublist ''ILIKE'') (whereExpressions st) = []" by simp
  from Company_bound_values[of cc st] a
  show "queryValues st
          = (case minEmployees cc of None \<Rightarrow> [] | Some m \<Rightarrow> [Num m])
            @ (case maxEmployees cc of None \<Rightarrow> [] | Some m \<Rightarrow> [Num m])" by simp
  from a Company_filters_falsy_name[of "name cc" cc]
  show "Company_filters (cc\<lparr>name := Undefined\<rparr>) = Inr st" by simp
qed

theorem text_criterion_predicate_witness:
  "filter (sublist ''ILIKE'')
      (whereExpressions (Job_filters \<lparr>title = Str ''eng'', minSalary = Num 5, hasEquity = Bool True\<rparr>))
     = [''title ILIKE $1'']
   \<and> queryValues (Job_filters \<lparr>title = Str ''eng'', minSalary = Num 5, hasEquity = Bool True\<rparr>)
     = [Str ''%eng%'', Num 5]
   \<and> queryValues (Job_filters \<lparr>title = Num 12, minSalary = Undefined, hasEquity = Undefined\<rparr>)
     = [Str ''%12%'']
   \<and> Company_filters \<lparr>name = Str ''net'', minEmployees = None, maxEmployees = Some 5\<rparr>
     = Inr \<lparr>whereExpressions = [''name ILIKE $1'', ''num_employees <= $2''],
            queryValues = [Str ''%net%'', Num 5]\<rparr>
   \<and> Company_filters \<lparr>name = Num 0, minEmployees = None, maxEmployees = Some 5\<rparr>
     = Inr \<lparr>whereExpressions = [''num_employees <= $1''], queryValues = [Num 5]\<rparr>
   \<and> filter (sublist ''ILIKE'') [''num_employees <= $1''] = []
   \<and> Company_filters \<lparr>name = Undefined, minEmployees = None, maxEmployees = Some 5\<rparr>
     = Inr \<lparr>whereExpressions = [''num_employees <= $1''], queryValues = [Num 5]\<rparr>"
proof -
  let ?j = "\<lparr>title = Str ''eng'', minSalary = Num 5, hasEquity = Bool True\<rparr>"
  let ?k = "\<lparr>title = Num 12, minSalary = Undefined, hasEquity = Undefined\<rparr>"
  let ?c = "\<lparr>name = Str ''net'', minEmployees = None, maxEmployees = Some 5\<rparr>"
  let ?st = "\<lparr>whereExpressions = [''name ILIKE $1'', ''num_employees <= $2''],
              queryValues = [Str ''%net%'', Num 5]\<rparr>"
  let ?d = "\<lparr>name = Num 0, minEmployees = None, maxEmployees = Some 5\<rparr>"
  let ?sd = "\<lparr>whereExpressions = [''num_employees <= $1''], queryValues = [Num 5]\<rparr>"
  have c: "Company_filters ?c = Inr ?st" by (simp add: findAll_defs show_nat_small)
  have d: "Company_filters ?d = Inr ?sd" by (simp add: findAll_defs show_nat_small)
  have n: "ToString (Num 12) = ''12''" by code_simp
  from text_criterion_predicate[of ?j ?c ?st] text_criterion_predicate[of ?k ?d ?sd] c d n
  show ?thesis by simp
qed

text \<open>
  Claim C8. \<open>Company.findAll\<close> tests the name for truthiness: the empty string, like any
  falsy name, appends no predicate and binds no value, and the call behaves as with the
  name absent. \<open>Job.findAll\<close> tests \<open>title !== undefined\<close>: the empty title appends
  \<open>title ILIKE $1\<close> and binds \<open>%%\<close>.
\<close>

theorem name_truthiness_title_definedness:
  "truthy (Str '''') = False
   \<and> Company_name_filter (cc\<lparr>name := Str ''''\<rparr>) = \<lparr>whereExpressions = [], queryValues = []\<rparr>
   \<and> Company_findAll (cc\<lparr>name := Str ''''\<rparr>) = Company_findAll (cc\<lparr>name := Undefined\<rparr>)
   \<and> (\<not> truthy n \<longrightarrow> Company_findAll (cc\<lparr>name := n\<rparr>) = Company_findAll (cc\<lparr>name := Undefined\<rparr>))
   \<and> (Company_filters (cc\<lparr>name := Str ''''\<rparr>) = Inr st \<longrightarrow>
        filter (sublist ''ILIKE'') (whereExpressions st) = [])
   \<and> filter (sublist ''ILIKE'') (whereExpressions (Job_filters (jc\<lparr>title := Str ''''\<rparr>)))
       = [''title ILIKE $1'']
   \<and> queryValues (Job_filters (jc\<lparr>title := Str ''''\<rparr>)) ! 0 = Str ''%%''"
  using Job_ILIKE_predicates[of "jc\<lparr>title := Str ''''\<rparr>"] Job_title_value[of "jc\<lparr>title := Str ''''\<rparr>"]
        Company_ILIKE_predicates[of "cc\<lparr>name := Str ''''\<rparr>" st]
        Company_filters_falsy_name[of n cc] Company_filters_falsy_name[of "Str ''''" cc]
  by (simp add: Company_findAll_def Company_name_filter_def init_acc_def)

theorem name_truthiness_title_definedness_witness:
  "\<not> truthy Null
   \<and> Company_findAll \<lparr>name = Null, minEmployees = Some 2, maxEmployees = None\<rparr>
       = Inr (Company_base @ '' WHERE num_employees >= $1 ORDER BY name'', [Num 2])
   \<and> Company_findAll \<lparr>name = Str '''', minEmployees = Some 2, maxEmployees = None\<rparr>
       = Inr (Company_base @ '' WHERE num_employees >= $1 ORDER BY name'', [Num 2])
   \<and> Company_filters \<lparr>name = Str '''', minEmployees = Some 2, maxEmployees = None\<rparr>
       = Inr \<lparr>whereExpressions = [''num_employees >= $1''], queryValues = [Num 2]\<rparr>
   \<and> filter (sublist ''ILIKE'') [''num_employees >= $1''] = []
   \<and> Job_findAll \<lparr>title = Str '''', minSalary = Undefined, hasEquity = Undefined\<rparr>
       = (Job_base @ '' WHERE title ILIKE $1 ORDER BY title'', [Str ''%%''])"
proof -
  let ?u = "\<lparr>name = Undefined, minEmployees = Some 2, maxEmployees = None\<rparr>"
  let ?st = "\<lparr>whereExpressions = [''num_employees >= $1''], queryValues = [Num 2]\<rparr>"
  have u: "Company_findAll ?u
             = Inr (Company_base @ '' WHERE num_employees >= $1 ORDER BY name'', [Num 2])"
    by (simp add: findAll_defs show_nat_small)
  have f: "Company_filters (?u\<lparr>name := Str ''''\<rparr>) = Inr ?st"
    by (simp add: findAll_defs show_nat_small)
  have j: "Job_findAll \<lparr>title = Str '''', minSalary = Undefined, hasEquity = Undefined\<rparr>
       = (Job_base @ '' WHERE title ILIKE $1 ORDER BY title'', [Str ''%%''])"
    by (simp add: findAll_defs show_nat_small)
  from name_truthiness_title_definedness[of ?u Null ?st] u f j show ?thesis by simp
qed

section \<open>The bounds check of Company.findAll\<close>

text \<open>
  Claim C2 says that the bounds check runs before any predicate is appended, so that
  nothing has been accumulated when the error is raised. In the source the \<open>if (name)\<close>
  block precedes the check: with a name, the error is thrown while the two arrays hold
  one predicate and one value.
\<close>

theorem bounds_check_after_name_counterexample:
  "js_gt (minEmployees \<lparr>name = Str ''net'', minEmployees = Some 5, maxEmployees = Some 1\<rparr>)
         (maxEmployees \<lparr>name = Str ''net'', minEmployees = Some 5, maxEmployees = Some 1\<rparr>)
   \<and> Company_findAll \<lparr>name = Str ''net'', minEmployees = Some 5, maxEmployees = Some 1\<rparr>
       = Inl (BadRequestError ''Minimum employees cannot be exceed maximum number of employees.'')
   \<and> Company_filters \<lparr>name = Str ''net'', minEmployees = Some 5, maxEmployees = Some 1\<rparr>
       = Inl (BadRequestError ''Minimum employees cannot be exceed maximum number of employees.'',
              \<lparr>whereExpressions = [''name ILIKE $1''], queryValues = [Str ''%net%'']\<rparr>)"
  by (simp add: findAll_defs show_nat_small)

text \<open>
  Claim C2, amended. When \<open>minEmployees\<close> exceeds \<open>maxEmployees\<close>, \<open>Company.findAll\<close>
  fails with a \<open>BadRequestError\<close> that carries its message, and composes no statement
  and no value list. The check runs after the name block and before the two bound
  predicates: the error is thrown while the arrays hold the name predicate and its
  wrapped value if the name is truthy, and nothing otherwise.
\<close>

theorem bounds_check_rejects:
  assumes "minEmployees c = Some lo" and "maxEmployees c = Some hi" and "lo > hi"
  shows "Company_findAll c
           = Inl (BadRequestError ''Minimum employees cannot be exceed maximum number of employees.'')
       \<and> Company_filters c
           = Inl (BadRequestError ''Minimum employees cannot be exceed maximum number of employees.'',
                  if truthy (name c)
                  then \<lparr>whereExpressions = [''name ILIKE $1''],
                        queryValues = [Str (''%'' @ ToString (name c) @ ''%'')]\<rparr>
                  else \<lparr>whereExpressions = [], queryValues = []\<rparr>)"
  using assms by (simp add: findAll_defs show_nat_small)

theorem bounds_check_rejects_witness:
  "(5::int) > 1
   \<and> Company_findAll \<lparr>name = Undefined, minEmployees = Some 5, maxEmployees = Some 1\<rparr>
       = Inl (BadRequestError ''Minimum employees cannot be exceed maximum number of employees.'')
   \<and> Company_filters \<lparr>name = Undefined, minEmployees = Some 5, maxEmployees = Some 1\<rparr>
       = Inl (BadRequestError ''Minimum employees cannot be exceed maximum number of employees.'',
              \<lparr>whereExpressions = [], queryValues = []\<rparr>)
   \<and> Company_filters \<lparr>name = Str ''net'', minEmployees = Some 5, maxEmployees = Some 1\<rparr>
       = Inl (BadRequestError ''Minimum employees cannot be exceed maximum number of employees.'',
              \<lparr>whereExpressions = [''name ILIKE $1''], queryValues = [Str ''%net%'']\<rparr>)"
proof -
  let ?c = "\<lparr>name = Undefined, minEmployees = Some 5, maxEmployees = Some 1\<rparr>"
  let ?d = "\<lparr>name = Str ''net'', minEmployees = Some 5, maxEmployees = Some 1\<rparr>"
  have h: "(5::int) > 1" by simp
  from bounds_check_rejects[of ?c 5 1, OF _ _ h] bounds_check_rejects[of ?d 5 1, OF _ _ h]
  show ?thesis by simp
qed

section \<open>Empty update\<close>

text \<open>
  Claim C3. For the empty update mapping the builder fails with \<open>InvalidArgument\<close>
  ("no data"), whatever the alias map, and so do \<open>Job.update\<close> and \<open>Company.update\<close>: the
  result is the error, with no clause, no value list and no statement text.
\<close>

theorem empty_update_rejected:
  "sqlForPartialUpdate [] al = Inl (InvalidArgument ''no data'')
   \<and> Job_update jid [] = Inl (InvalidArgument ''no data'')
   \<and> Company_update h [] = Inl (InvalidArgument ''no data'')"
  by (simp add: sqlForPartialUpdate_def Job_update_def Company_update_def)



section \<open>Placeholders of the SET clause\<close>

lemma digit_not_dollar: "is_digit c \<Longrightarrow> c \<noteq> CHR ''$''"
  by (auto simp: is_digit_def)


lemma digit_not_blank: "is_digit c \<Longrightarrow> c \<noteq> CHR '' ''"
  by (auto simp: is_digit_def)

lemma placeholders_skip: "CHR ''$'' \<notin> set a \<Longrightarrow> placeholders (a @ b) = placeholders b"
  by (induction a) auto

lemma placeholders_none: "CHR ''$'' \<notin> set a \<Longrightarrow> placeholders a = []"
  using placeholders_skip[of a "[]"] by simp

lemma show_nat_no_dollar: "CHR ''$'' \<notin> set (show_nat n)"
  using show_nat_digits digit_not_dollar by blast

lemma takeWhile_show_nat_stop:
  "\<not> is_digit x \<Longrightarrow> takeWhile is_digit (show_nat n @ x # r) = show_nat n"
  using show_nat_digits by (simp add: takeWhile_tail)

lemma takeWhile_show_nat: "takeWhile is_digit (show_nat n) = show_nat n"
  using show_nat_digits by (simp add: takeWhile_eq_all_conv)

lemma placeholders_numbered_stop:
  assumes "\<not> is_digit x"
  shows "placeholders (CHR ''$'' # show_nat n @ x # r) = n # placeholders (x # r)"
proof -
  have tw: "takeWhile is_digit (show_nat n @ x # r) = show_nat n"
    using assms by (rule takeWhile_show_nat_stop)
  have sk: "placeholders (show_nat n @ x # r) = placeholders (x # r)"
    by (rule placeholders_skip[OF show_nat_no_dollar])
  show ?thesis
    by (simp add: tw sk show_nat_nonempty read_show_nat)
qed

lemma placeholders_numbered_end: "placeholders (CHR ''$'' # show_nat n) = [n]"
  by (simp add: takeWhile_show_nat show_nat_nonempty read_show_nat
      placeholders_none[OF show_nat_no_dollar])

lemma placeholders_fragment:
  assumes "CHR ''$'' \<notin> set (column al k)"
  shows "placeholders (fragment al (i, k)) = [Suc i]"
proof -
  have f: "fragment al (i, k) = column al k @ ('' = '' @ CHR ''$'' # show_nat (Suc i))"
    by (simp add: fragment_def)
  have "placeholders (column al k @ ('' = '' @ CHR ''$'' # show_nat (Suc i)))
          = placeholders ('' = '' @ CHR ''$'' # show_nat (Suc i))"
    using assms by (rule placeholders_skip)
  also have "\<dots> = placeholders (CHR ''$'' # show_nat (Suc i))"
    by (rule placeholders_skip) simp
  also have "\<dots> = [Suc i]"
    by (rule placeholders_numbered_end)
  finally show ?thesis by (simp only: f)
qed

lemma placeholders_join:
  "placeholders (join '', '' fs) = concat (map placeholders fs)"
proof (induction "'', ''" fs rule: join.induct)
  case (3 x y ys)
  have "placeholders (x @ CHR '','' # (CHR '' '' # join '', '' (y # ys)))
          = placeholders x @ placeholders (CHR '','' # CHR '' '' # join '', '' (y # ys))"
    by (rule placeholders_append_stop) (simp add: is_digit_def)
  with 3 show ?case by simp
qed simp_all

lemma placeholders_fragments:
  "\<forall>k \<in> set ks. CHR ''$'' \<notin> set (column al k) \<Longrightarrow>
     concat (map placeholders (map (fragment al) (enumerate i ks))) = [Suc i..<Suc i + length ks]"
proof (induction ks arbitrary: i)
  case Nil
  then show ?case by simp
next
  case (Cons k ks)
  then have "concat (map placeholders (map (fragment al) (enumerate (Suc i) ks)))
               = [Suc (Suc i)..<Suc (Suc i) + length ks]"
    by simp
  with Cons.prems show ?case
    by (simp add: placeholders_fragment upt_rec[of "Suc i"] del: upt_Suc)
qed

lemma placeholders_setCols:
  assumes "\<forall>k \<in> set (map fst data). CHR ''$'' \<notin> set (column al k)"
      and "sqlForPartialUpdate data al = Inr r"
  shows "placeholders (setCols r) = [1..<Suc (length (values' r))]"
proof -
  from assms(2) have r: "setCols r = join '', '' (map (fragment al) (enumerate 0 (map fst data)))"
      "values' r = map snd data"
    by (auto simp: sqlForPartialUpdate_def split: if_splits)
  from placeholders_fragments[OF assms(1), of 0] show ?thesis
    by (simp add: r placeholders_join del: upt_Suc)
qed


lemma update_text_no_dollar:
  "CHR ''$'' \<notin> set Job_update_head" "CHR ''$'' \<notin> set Job_update_mid"
  "CHR ''$'' \<notin> set Job_update_tail" "CHR ''$'' \<notin> set Company_update_head"
  "CHR ''$'' \<notin> set Company_update_mid" "CHR ''$'' \<notin> set Company_update_tail"
  by (simp_all add: Job_update_head_def Job_update_mid_def Job_update_tail_def
      Company_update_head_def Company_update_mid_def Company_update_tail_def)

lemma update_text_blank:
  "\<exists>m. Job_update_mid = CHR '' '' # m" "\<exists>t. Job_update_tail = CHR '' '' # t"
  "\<exists>m. Company_update_mid = CHR '' '' # m" "\<exists>t. Company_update_tail = CHR '' '' # t"
  by (simp_all add: Job_update_mid_def Job_update_tail_def
      Company_update_mid_def Company_update_tail_def)

lemma update_stmt_placeholders:
  assumes h: "CHR ''$'' \<notin> set h"
      and m: "CHR ''$'' \<notin> set (CHR '' '' # m)"
      and t: "CHR ''$'' \<notin> set (CHR '' '' # t)"
      and sc: "placeholders sc = [1..<Suc n]"
  shows "placeholders (h @ sc @ (CHR '' '' # m) @ (''$'' @ show_nat (n + 1)) @ (CHR '' '' # t))
           = [1..<Suc (Suc n)]"
proof -
  have blank: "\<not> is_digit (CHR '' '')" by (simp add: is_digit_def)
  have "placeholders (h @ sc @ (CHR '' '' # m) @ (''$'' @ show_nat (n + 1)) @ (CHR '' '' # t))
          = placeholders (sc @ CHR '' '' # (m @ (''$'' @ show_nat (n + 1)) @ (CHR '' '' # t)))"
    using placeholders_skip[OF h] by simp
  also have "\<dots> = placeholders sc
                    @ placeholders ((CHR '' '' # m) @ (''$'' @ show_nat (n + 1)) @ (CHR '' '' # t))"
    using placeholders_append_stop[OF blank] by simp
  also have "placeholders ((CHR '' '' # m) @ (''$'' @ show_nat (n + 1)) @ (CHR '' '' # t))
               = placeholders (CHR ''$'' # show_nat (n + 1) @ CHR '' '' # t)"
    using placeholders_skip[OF m] by simp
  also have "\<dots> = (n + 1) # placeholders (CHR '' '' # t)"
    using blank by (rule placeholders_numbered_stop)
  also have "placeholders (CHR '' '' # t) = []"
    using t by (rule placeholders_none)
  finally show ?thesis
    by (simp add: sc)
qed

lemma builder_result:
  "data \<noteq> [] \<Longrightarrow>
     sqlForPartialUpdate data al
       = Inr \<lparr>setCols = join '', '' (map (fragment al) (enumerate 0 (map fst data))),
              values' = map snd data\<rparr>"
  by (simp add: sqlForPartialUpdate_def)

lemma Job_update_placeholders:
  assumes "\<forall>k \<in> set (map fst data). CHR ''$'' \<notin> set (column Map.empty k)"
      and "Job_update jid data = Inr (sql, params)"
  shows "placeholders sql = [1..<Suc (length params)]"
proof -
  from assms(2) obtain r where r: "sqlForPartialUpdate data Map.empty = Inr r"
    by (auto simp: Job_update_def split: sum.splits)
  from placeholders_setCols[OF assms(1) r]
  have sc: "placeholders (setCols r) = [1..<Suc (length (values' r))]" .
  obtain m t where mt: "Job_update_mid = CHR '' '' # m" "Job_update_tail = CHR '' '' # t"
    using update_text_blank by blast
  from update_stmt_placeholders[OF update_text_no_dollar(1) _ _ sc, of m t]
       update_text_no_dollar(2,3) mt
  have "placeholders (Job_update_head @ setCols r @ Job_update_mid
          @ (''$'' @ show_nat (length (values' r) + 1)) @ Job_update_tail)
        = [1..<Suc (Suc (length (values' r)))]"
    by simp
  with assms(2) r show ?thesis
    by (auto simp: Job_update_def Let_def simp del: upt_Suc)
qed

lemma Company_update_placeholders:
  assumes "\<forall>k \<in> set (map fst data). CHR ''$'' \<notin> set (column Company_aliases k)"
      and "Company_update handle data = Inr (sql, params)"
  shows "placeholders sql = [1..<Suc (length params)]"
proof -
  from assms(2) obtain r where r: "sqlForPartialUpdate data Company_aliases = Inr r"
    by (auto simp: Company_update_def split: sum.splits)
  from placeholders_setCols[OF assms(1) r]
  have sc: "placeholders (setCols r) = [1..<Suc (length (values' r))]" .
  obtain m t where mt: "Company_update_mid = CHR '' '' # m" "Company_update_tail = CHR '' '' # t"
    using update_text_blank by blast
  from update_stmt_placeholders[OF update_text_no_dollar(4) _ _ sc, of m t]
       update_text_no_dollar(5,6) mt
  have "placeholders (Company_update_head @ setCols r @ Company_update_mid
          @ (''$'' @ show_nat (length (values' r) + 1)) @ Company_update_tail)
        = [1..<Suc (Suc (length (values' r)))]"
    by simp
  with assms(2) r show ?thesis
    by (auto simp: Company_update_def Let_def simp del: upt_Suc)
qed

lemmas builder_defs = sqlForPartialUpdate_def fragment_def column_def Company_aliases_def

section \<open>Placeholder alignment of the update statements\<close>


lemma update_fields_no_dollar:
  "\<forall>k \<in> set Job_update_fields. CHR ''$'' \<notin> set (column Map.empty k)"
  "\<forall>k \<in> set Company_update_fields. CHR ''$'' \<notin> set (column Company_aliases k)"
  by code_simp+

lemma Job_fields_no_dollar:
  "set ks \<subseteq> set Job_update_fields \<Longrightarrow> \<forall>k \<in> set ks. CHR ''$'' \<notin> set (column Map.empty k)"
  using update_fields_no_dollar(1) by blast

lemma Company_fields_no_dollar:
  "set ks \<subseteq> set Company_update_fields \<Longrightarrow>
     \<forall>k \<in> set ks. CHR ''$'' \<notin> set (column Company_aliases k)"
  using update_fields_no_dollar(2) by blast

text \<open>
  Claim C10. For every non-empty data mapping, \<open>Job.update\<close> and \<open>Company.update\<close>
  number the placeholder of the WHERE clause one above the length of the builder's
  value list and pass the identifier as the last parameter. For the data the two
  functions document (\<open>title\<close>, \<open>salary\<close>, \<open>equity\<close>; \<open>name\<close>, \<open>description\<close>,
  \<open>numEmployees\<close>, \<open>logoUrl\<close>), the placeholders of the full statement, read left to
  right, are \<open>$1, ..., $n\<close> with \<open>n\<close> the length of the parameter array, so their count is
  that length.
\<close>

theorem update_placeholders_match_params:
  assumes "data \<noteq> []"
  shows "(\<exists>r. sqlForPartialUpdate data Map.empty = Inr r \<and> values' r = map snd data
            \<and> Job_update jid data
                = Inr (Job_update_head @ setCols r @ Job_update_mid
                         @ (''$'' @ show_nat (length (values' r) + 1)) @ Job_update_tail,
                       values' r @ [jid]))
       \<and> (\<exists>r. sqlForPartialUpdate data Company_aliases = Inr r \<and> values' r = map snd data
            \<and> Company_update handle data
                = Inr (Company_update_head @ setCols r @ Company_update_mid
                         @ (''$'' @ show_nat (length (values' r) + 1)) @ Company_update_tail,
                       values' r @ [handle]))
       \<and> (set (map fst data) \<subseteq> set Job_update_fields \<longrightarrow>
            (\<exists>sql params. Job_update jid data = Inr (sql, params)
               \<and> placeholders sql = [1..<Suc (length params)]
               \<and> length (placeholders sql) = length params))
       \<and> (set (map fst data) \<subseteq> set Company_update_fields \<longrightarrow>
            (\<exists>sql params. Company_update handle data = Inr (sql, params)
               \<and> placeholders sql = [1..<Suc (length params)]
               \<and> length (placeholders sql) = length params))"
proof -
  have j: "\<exists>r. sqlForPartialUpdate data Map.empty = Inr r \<and> values' r = map snd data
            \<and> Job_update jid data
                = Inr (Job_update_head @ setCols r @ Job_update_mid
                         @ (''$'' @ show_nat (length (values' r) + 1)) @ Job_update_tail,
                       values' r @ [jid])"
    using assms by (simp add: Job_update_def builder_result)
  have c: "\<exists>r. sqlForPartialUpdate data Company_aliases = Inr r \<and> values' r = map snd data
            \<and> Company_update handle data
                = Inr (Company_update_head @ setCols r @ Company_update_mid
                         @ (''$'' @ show_nat (length (values' r) + 1)) @ Company_update_tail,
                       values' r @ [handle])"
    using assms by (simp add: Company_update_def builder_result)
  have jp: "\<exists>sql params. Job_update jid data = Inr (sql, params)
               \<and> placeholders sql = [1..<Suc (length params)]
               \<and> length (placeholders sql) = length params"
    if h: "set (map fst data) \<subseteq> set Job_update_fields"
  proof -
    from j obtain sql params where s: "Job_update jid data = Inr (sql, params)" by blast
    from Job_update_placeholders[OF Job_fields_no_dollar[OF h] s]
    have "placeholders sql = [1..<Suc (length params)]" .
    with s show ?thesis by (simp del: upt_Suc)
  qed
  have cp: "\<exists>sql params. Company_update handle data = Inr (sql, params)
               \<and> placeholders sql = [1..<Suc (length params)]
               \<and> length (placeholders sql) = length params"
    if h: "set (map fst data) \<subseteq> set Company_update_fields"
  proof -
    from c obtain sql params where s: "Company_update handle data = Inr (sql, params)" by blast
    from Company_update_placeholders[OF Company_fields_no_dollar[OF h] s]
    have "placeholders sql = [1..<Suc (length params)]" .
    with s show ?thesis by (simp del: upt_Suc)
  qed
  from j c jp cp show ?thesis by blast
qed

theorem update_placeholders_match_params_witness:
  "Job_update (Num 7) [(''title'', Str ''Engineer''), (''salary'', Num 100)]
     = Inr (Job_update_head @ ''title = $1, salary = $2'' @ Job_update_mid @ ''$3'' @ Job_update_tail,
            [Str ''Engineer'', Num 100, Num 7])
   \<and> placeholders (Job_update_head @ ''title = $1, salary = $2'' @ Job_update_mid @ ''$3''
                    @ Job_update_tail) = [1, 2, 3]
   \<and> Company_update (Str ''c1'') [(''numEmployees'', Num 10), (''name'', Str ''N'')]
     = Inr (Company_update_head @ ''num_employees = $1, name = $2'' @ Company_update_mid @ ''$3''
              @ Company_update_tail,
            [Num 10, Str ''N'', Str ''c1''])
   \<and> placeholders (Company_update_head @ ''num_employees = $1, name = $2'' @ Company_update_mid
                    @ ''$3'' @ Company_update_tail) = [1, 2, 3]"
proof -
  let ?d = "[(''title'', Str ''Engineer''), (''salary'', Num 100)]"
  let ?e = "[(''numEmployees'', Num 10), (''name'', Str ''N'')]"
  have nd: "?d \<noteq> []" and ne: "?e \<noteq> []" by simp_all
  have kj: "set (map fst ?d) \<subseteq> set Job_update_fields"
    by (simp add: Job_update_fields_def)
  have kc: "set (map fst ?e) \<subseteq> set Company_update_fields"
    by (simp add: Company_update_fields_def)
  have j: "Job_update (Num 7) ?d
     = Inr (Job_update_head @ ''title = $1, salary = $2'' @ Job_update_mid @ ''$3'' @ Job_update_tail,
            [Str ''Engineer'', Num 100, Num 7])"
    by (simp add: Job_update_def builder_defs show_nat_small)
  have c: "Company_update (Str ''c1'') ?e
     = Inr (Company_update_head @ ''num_employees = $1, name = $2'' @ Company_update_mid @ ''$3''
              @ Company_update_tail,
            [Num 10, Str ''N'', Str ''c1''])"
    by (simp add: Company_update_def builder_defs show_nat_small)
  from update_placeholders_match_params[OF nd, of "Num 7" "Str ''c1''"]
       update_placeholders_match_params[OF ne, of "Num 7" "Str ''c1''"] kj kc j c
  show ?thesis by (simp add: upt_rec)
qed

section \<open>Reading the SET clause back\<close>

lemma pieces_nonempty: "pieces s \<noteq> []"
  by (induction s) (auto split: list.splits)



















section \<open>Columns written by an update\<close>




end
